theory Spec2Isabelle
  imports Complex_Main
begin

section \<open>Constants (frontend/src/lib/constants.ts)\<close>

text \<open>All durations are milliseconds.\<close>

definition MAX_RETRIES :: nat where
  "MAX_RETRIES = 2"

definition DEFAULT_TIMEOUT_MS :: nat where
  "DEFAULT_TIMEOUT_MS = 30000"

definition INITIAL_RETRY_DELAY_MS :: nat where
  "INITIAL_RETRY_DELAY_MS = 1000"

definition MAX_RETRY_DELAY_MS :: nat where
  "MAX_RETRY_DELAY_MS = 10000"

section \<open>JavaScript string helpers used by the client\<close>

text \<open>
  Strings are lists of 8-bit characters; a header value delivered by \<^verbatim>\<open>Headers.get\<close> is
  a byte string, so nothing is lost for the Retry-After hint.
\<close>

definition isWhiteSpace :: "char \<Rightarrow> bool" where
  \<comment> \<open>The white space and line terminator characters of ECMAScript below U+0100:
      TAB, LF, VT, FF, CR, SP, NBSP.\<close>
  "isWhiteSpace c = ((of_char c :: nat) \<in> {9, 10, 11, 12, 13, 32, 160})"

definition isDigit :: "char \<Rightarrow> bool" where
  "isDigit c = (48 \<le> (of_char c :: nat) \<and> (of_char c :: nat) \<le> 57)"

definition digitValue :: "char \<Rightarrow> int" where
  "digitValue c = int (of_char c) - 48"

definition trim :: "string \<Rightarrow> string" where
  \<comment> \<open>\<^verbatim>\<open>String.prototype.trim\<close>\<close>
  "trim s = rev (dropWhile isWhiteSpace (rev (dropWhile isWhiteSpace s)))"

fun startsWith :: "string \<Rightarrow> string \<Rightarrow> bool" where
  "startsWith s [] = True"
| "startsWith [] (p # ps) = False"
| "startsWith (c # s) (p # ps) = (c = p \<and> startsWith s ps)"

fun includes_str :: "string \<Rightarrow> string \<Rightarrow> bool" where
  \<comment> \<open>\<^verbatim>\<open>String.prototype.includes\<close>: the pattern occurs somewhere in the string\<close>
  "includes_str [] p = (p = [])"
| "includes_str (c # s) p = (startsWith (c # s) p \<or> includes_str s p)"

fun join :: "string \<Rightarrow> string list \<Rightarrow> string" where
  \<comment> \<open>\<^verbatim>\<open>Array.prototype.join\<close>\<close>
  "join sep [] = []"
| "join sep [x] = x"
| "join sep (x # y # ys) = x @ sep @ join sep (y # ys)"

function decimal :: "nat \<Rightarrow> string" where
  \<comment> \<open>the decimal numeral a template literal prints for a non-negative integer\<close>
  "decimal n =
     (if n < 10 then [''0123456789'' ! n]
      else decimal (n div 10) @ [''0123456789'' ! (n mod 10)])"
  by pat_completeness auto
termination
  by (relation "measure id") auto

definition parseInt :: "string \<Rightarrow> int option" where
  \<comment> \<open>\<^verbatim>\<open>parseInt(s, 10)\<close>: leading white space is skipped, one sign is read, then the
      longest run of decimal digits; no digit at all gives NaN (\<open>None\<close>). The value is the
      exact integer (a double is exact up to \<open>2^53\<close>; beyond 10 the caller caps it anyway).\<close>
  "parseInt s =
     (let s1 = dropWhile isWhiteSpace s;
          sign = (case s1 of c # r \<Rightarrow> if c = CHR ''-'' then - 1 else 1 | [] \<Rightarrow> 1);
          s2 = (case s1 of c # r \<Rightarrow> if c = CHR ''-'' \<or> c = CHR ''+'' then r else s1 | [] \<Rightarrow> []);
          ds = takeWhile isDigit s2
      in if ds = [] then None
         else Some (sign * foldl (\<lambda>a c. 10 * a + digitValue c) 0 ds))"

section \<open>Structured document (frontend/src/types/index.ts)\<close>

record IncidentForm =
  date_and_time_of_incident :: string
  service_user_name :: string
  location_of_incident :: string
  type_of_incident :: string
  description_of_incident :: string
  immediate_actions_taken :: string
  was_first_aid_administered :: bool
  were_emergency_services_contacted :: bool
  who_was_notified :: string
  witnesses :: string
  agreed_next_steps :: string
  risk_assessment_needed :: bool
  if_yes_which_risk_assessment :: string

record PolicyAnalysis =
  relevant_policies :: "string list"
  policy_compliance :: "string list"
  recommended_actions :: "string list"
  concerns :: "string list"

record DraftEmail =
  to :: "string list"
  cc :: "string list option"
  subject :: string
  body :: string

record AnalysisResponse =
  incident_form :: IncidentForm
  policy_analysis :: PolicyAnalysis
  draft_email :: DraftEmail
  source_quotes :: "(string \<times> string) list"

datatype SectionType = incident_form_section | draft_email_section | all_sections

text \<open>
  Modelled from the spec: the validators themselves (the backend's models) are not among
  the sources; the minimum-content constraints are the ones section 3 of the specification
  and the comments of types/index.ts list for the non-nullable fields. The ISO 8601 shape of
  the date field is a format rule, not a minimum-content rule, and is left out.
\<close>

definition minContentIncidentForm :: "IncidentForm \<Rightarrow> bool" where
  "minContentIncidentForm f =
     (1 \<le> length (service_user_name f) \<and>
      1 \<le> length (location_of_incident f) \<and>
      1 \<le> length (type_of_incident f) \<and>
      10 \<le> length (description_of_incident f) \<and>
      1 \<le> length (immediate_actions_taken f) \<and>
      1 \<le> length (who_was_notified f) \<and>
      1 \<le> length (agreed_next_steps f))"

definition minContentDraftEmail :: "DraftEmail \<Rightarrow> bool" where
  "minContentDraftEmail e =
     (1 \<le> length (to e) \<and> list_all (\<lambda>a. a \<noteq> []) (to e) \<and>
      (case cc e of None \<Rightarrow> True | Some xs \<Rightarrow> list_all (\<lambda>a. a \<noteq> []) xs) \<and>
      5 \<le> length (subject e) \<and>
      20 \<le> length (body e))"

definition minContentValid :: "AnalysisResponse \<Rightarrow> bool" where
  "minContentValid d =
     (minContentIncidentForm (incident_form d) \<and> minContentDraftEmail (draft_email d))"

section \<open>HTTP responses and errors (lib/api.ts, given in README.md)\<close>

text \<open>
  A parsed JSON body is the value null (\<open>None\<close>) or an object: a document, or the error
  object \<^verbatim>\<open>{detail, errors}\<close> of a failed call, whose fields have the declared types
  when present. \<^verbatim>\<open>response.json()\<close> is typed by an unchecked cast, so any of these can
  come out of either path. Reading a property of null throws a TypeError.
\<close>

datatype json = Doc AnalysisResponse | ErrorData "string option" "string list option"

fun detail :: "json \<Rightarrow> string option" where
  "detail (ErrorData d e) = d"
| "detail (Doc a) = None"

fun errors :: "json \<Rightarrow> string list option" where
  "errors (ErrorData d e) = e"
| "errors (Doc a) = None"

record response =
  status :: nat
  statusText :: string
  retryAfterHeader :: "string option"  \<comment> \<open>\<^verbatim>\<open>headers.get("Retry-After")\<close>, \<open>None\<close> is null\<close>
  jsonBody :: "string + json option"  \<comment> \<open>\<^verbatim>\<open>response.json()\<close>: \<open>Inl m\<close> rejects with a SyntaxError of message \<open>m\<close>, \<open>Inr None\<close> resolves to null\<close>

definition ok :: "response \<Rightarrow> bool" where
  \<comment> \<open>\<^verbatim>\<open>Response.ok\<close>\<close>
  "ok r = (200 \<le> status r \<and> status r \<le> 299)"

datatype js_error =
    ApiError string nat "string list option" bool  \<comment> \<open>message, status, details, isRetryable\<close>
  | TimeoutError string
  | TypeError string
  | OtherError string string  \<comment> \<open>any other Error object: name and message\<close>
  | NonError  \<comment> \<open>a thrown value that is not an Error, such as undefined\<close>

fun errorName :: "js_error \<Rightarrow> string option" where
  "errorName (ApiError m st d r) = Some ''ApiError''"
| "errorName (TimeoutError m) = Some ''TimeoutError''"
| "errorName (TypeError m) = Some ''TypeError''"
| "errorName (OtherError n m) = Some n"
| "errorName NonError = None"

fun errorMessage :: "js_error \<Rightarrow> string" where
  "errorMessage (ApiError m st d r) = m"
| "errorMessage (TimeoutError m) = m"
| "errorMessage (TypeError m) = m"
| "errorMessage (OtherError n m) = m"
| "errorMessage NonError = []"

definition isAbortError :: "js_error \<Rightarrow> bool" where
  \<comment> \<open>lib/errors.ts; fetchWithRetry writes the same test inline\<close>
  "isAbortError e = (errorName e = Some ''AbortError'')"

fun formatErrorMessage :: "js_error \<Rightarrow> string" where
  \<comment> \<open>lib/errors.ts\<close>
  "formatErrorMessage (TimeoutError m) =
     ''Request timed out. The server may be busy - please try again.''"
| "formatErrorMessage (ApiError m st d r) =
     (case d of
        Some ds \<Rightarrow> if ds \<noteq> [] then m @ '': '' @ join '', '' ds else m
      | None \<Rightarrow> m)"
| "formatErrorMessage (TypeError m) = m"
| "formatErrorMessage (OtherError n m) = m"
| "formatErrorMessage NonError = ''An unexpected error occurred''"

section \<open>Backoff policy\<close>

definition calculateRetryDelay :: "nat \<Rightarrow> real \<Rightarrow> real" where
  \<comment> \<open>\<open>rnd\<close> is the value \<^verbatim>\<open>Math.random()\<close> returns in this call, a number in \<open>[0, 1)\<close>,
      taken as a real\<close>
  "calculateRetryDelay attempt rnd =
     (let exponentialDelay = INITIAL_RETRY_DELAY_MS * 2 ^ attempt;
          cappedDelay = min exponentialDelay MAX_RETRY_DELAY_MS
      in real cappedDelay + rnd * 1000)"

definition parseRetryAfter ::
  "(string \<Rightarrow> real option) \<Rightarrow> real \<Rightarrow> string option \<Rightarrow> real \<Rightarrow> real" where
  \<comment> \<open>\<open>dateParse s\<close> is \<^verbatim>\<open>new Date(s).getTime()\<close> (\<open>None\<close> for NaN) and \<open>now\<close> is
      \<^verbatim>\<open>Date.now()\<close>; both belong to the JavaScript runtime and are parameters here\<close>
  "parseRetryAfter dateParse now retryAfter fallbackDelay =
     (case retryAfter of
        None \<Rightarrow> fallbackDelay
      | Some h \<Rightarrow>
          if h = [] then fallbackDelay
          else (case parseInt h of
                  Some seconds \<Rightarrow> min (real_of_int (seconds * 1000)) (real MAX_RETRY_DELAY_MS)
                | None \<Rightarrow>
                    (case dateParse h of
                       Some retryDate \<Rightarrow>
                         (let delay = max 0 (retryDate - now)
                          in min delay (real MAX_RETRY_DELAY_MS))
                     | None \<Rightarrow> fallbackDelay)))"

definition isRetryableError :: "js_error \<Rightarrow> bool" where
  "isRetryableError e =
     (case e of
        TypeError m \<Rightarrow> includes_str m ''fetch''
      | TimeoutError m \<Rightarrow> True
      | ApiError m st d r \<Rightarrow> st \<ge> 500 \<or> st = 429
      | _ \<Rightarrow> False)"

section \<open>The environment of one dispatcher invocation\<close>

text \<open>
  Time is the reading of \<^verbatim>\<open>Date.now()\<close>, a real number of milliseconds. Everything the
  client cannot decide is a parameter: what the network does with the k-th call of
  \<^verbatim>\<open>fetch\<close> for a request (how long it takes to settle, and with what), the numbers
  \<^verbatim>\<open>Math.random()\<close> returns, the date parser, and the instant at which the caller's
  AbortSignal fires (\<open>None\<close>: no signal was passed, or it never fires). Timers are ideal
  and reading a body takes no time. Two tasks that are due at the same instant run in an
  order the client does not decide either; that order is part of what is given for each
  call of \<^verbatim>\<open>fetch\<close>.
\<close>

datatype net_outcome =
    Responds response
  | Rejects string  \<comment> \<open>fetch rejects with a TypeError of this message\<close>

record net_attempt =
  latency :: real
  outcome :: net_outcome
  callerFirst :: bool  \<comment> \<open>the task that aborts the caller's signal runs before a task of this
                           attempt (its start, its deadline timer) due at the same instant\<close>
  settleFirst :: bool  \<comment> \<open>the fetch settles before an abort due at the same instant\<close>

datatype request_body =
    AnalyzeBody string "string option"  \<comment> \<open>transcript, additional_context\<close>
  | RefineBody json string SectionType  \<comment> \<open>original_response, feedback, section_to_edit\<close>

record env =
  net :: "request_body \<Rightarrow> nat \<Rightarrow> net_attempt"
  mathRandom :: "nat \<Rightarrow> real"  \<comment> \<open>the value drawn in loop iteration k\<close>
  dateParse :: "string \<Rightarrow> real option"
  abortMessage :: string  \<comment> \<open>message of the DOMException an aborted fetch rejects with\<close>
  nullAccessMessage :: string  \<comment> \<open>message of the TypeError thrown on reading a property of null\<close>

section \<open>Timeout guard\<close>

definition userAborted :: "real option \<Rightarrow> real \<Rightarrow> bool \<Rightarrow> bool" where
  \<comment> \<open>\<^verbatim>\<open>userSignal?.aborted\<close> as a task running at instant \<open>t\<close> reads it; \<open>first\<close> says
      whether an abort of the caller's signal due at that same instant has already run\<close>
  "userAborted userSignal t first =
     (case userSignal of Some ta \<Rightarrow> ta < t \<or> (ta = t \<and> first) | None \<Rightarrow> False)"

definition fetchWithTimeout ::
  "string \<Rightarrow> net_attempt \<Rightarrow> real option \<Rightarrow> real \<Rightarrow> nat \<Rightarrow> (js_error + response) \<times> real" where
  \<comment> \<open>Returns what the call returns (\<open>Inr\<close>) or throws (\<open>Inl\<close>), and the instant at which it
      does. The inner controller, whose signal is the one fetch gets, is aborted by the timer
      at the deadline, and by the listener on the caller's signal. A listener added to a
      signal that has already fired is never called; otherwise it runs when the caller's
      signal fires, provided that happens before the deadline timer runs. In the catch the
      caller's signal reads as aborted when its listener has run or it had fired before the
      attempt began.\<close>
  "fetchWithTimeout abortMsg call userSignal now timeoutMs =
     (let deadline = now + real timeoutMs;
          firedBefore = userAborted userSignal now (callerFirst call);
          listenerRuns = (\<not> firedBefore \<and> userAborted userSignal deadline (callerFirst call));
          controllerAbort =
            (case userSignal of
               Some ta \<Rightarrow> if listenerRuns then ta else deadline
             | None \<Rightarrow> deadline);
          settle = now + latency call
      in if settle < controllerAbort \<or> (settle = controllerAbort \<and> settleFirst call) then
           (case outcome call of
              Responds response \<Rightarrow> (Inr response, settle)
            | Rejects m \<Rightarrow> (Inl (TypeError m), settle))
         else if listenerRuns \<or> firedBefore then
           (Inl (OtherError ''AbortError'' abortMsg), controllerAbort)
         else
           (Inl (TimeoutError (''Request timed out after '' @ decimal timeoutMs @ ''ms'')),
            controllerAbort))"

section \<open>Retrying dispatcher\<close>

record 'a run =
  final :: "js_error + 'a"  \<comment> \<open>what the call returns (\<open>Inr\<close>) or throws (\<open>Inl\<close>)\<close>
  finished :: real  \<comment> \<open>the instant at which it does\<close>
  trace :: "(js_error + response) list"  \<comment> \<open>how each attempt made ended, in order\<close>
  sleeps :: "real list"  \<comment> \<open>the argument of each call of sleep, in order\<close>

definition sleep :: "real \<Rightarrow> real \<Rightarrow> real" where
  \<comment> \<open>the instant at which \<^verbatim>\<open>await sleep(ms)\<close> started at \<open>now\<close> resumes; setTimeout
      treats a negative delay as zero\<close>
  "sleep now ms = now + max 0 ms"

definition retried :: "js_error + response \<Rightarrow> real \<Rightarrow> 'a run \<Rightarrow> 'a run" where
  \<comment> \<open>bookkeeping of the model: puts the attempt just made and its wait in front of the
      record of the rest of the loop\<close>
  "retried this delay rest = rest\<lparr>trace := this # trace rest, sleeps := delay # sleeps rest\<rparr>"

definition stop :: "js_error + response \<Rightarrow> real \<Rightarrow> response run" where
  "stop this t = \<lparr>final = this, finished = t, trace = [this], sleeps = []\<rparr>"

function fetchWithRetry_loop ::
  "env \<Rightarrow> request_body \<Rightarrow> real option \<Rightarrow> nat \<Rightarrow> nat \<Rightarrow> real \<Rightarrow> js_error option \<Rightarrow> response run"
  where
  "fetchWithRetry_loop E req userSignal maxRetries attempt now lastError =
     (if attempt \<le> maxRetries then
        (case fetchWithTimeout (abortMessage E) (net E req attempt) userSignal now
                DEFAULT_TIMEOUT_MS of
           (Inr response, t) \<Rightarrow>
             if status response \<ge> 500 \<and> attempt < maxRetries then
               (let delay = calculateRetryDelay attempt (mathRandom E attempt)
                in retried (Inr response) delay
                     (fetchWithRetry_loop E req userSignal maxRetries (attempt + 1)
                        (sleep t delay) lastError))
             else if status response = 429 \<and> attempt < maxRetries then
               (let retryAfter = retryAfterHeader response;
                    delay = parseRetryAfter (dateParse E) t retryAfter
                              (calculateRetryDelay attempt (mathRandom E attempt))
                in retried (Inr response) delay
                     (fetchWithRetry_loop E req userSignal maxRetries (attempt + 1)
                        (sleep t delay) lastError))
             else stop (Inr response) t
         | (Inl error, t) \<Rightarrow>
             if isAbortError error then stop (Inl error) t
             else if isRetryableError error \<and> attempt < maxRetries then
               (let delay = calculateRetryDelay attempt (mathRandom E attempt)
                in retried (Inl error) delay
                     (fetchWithRetry_loop E req userSignal maxRetries (attempt + 1)
                        (sleep t delay) (Some error)))
             else stop (Inl error) t)
      else
        \<lparr>final = Inl (case lastError of Some e \<Rightarrow> e | None \<Rightarrow> NonError),
         finished = now, trace = [], sleeps = []\<rparr>)"
  by pat_completeness auto
termination
  by (relation "measure (\<lambda>(E, req, userSignal, maxRetries, attempt, now, lastError).
        Suc maxRetries - attempt)") auto

definition fetchWithRetry ::
  "env \<Rightarrow> request_body \<Rightarrow> real option \<Rightarrow> real \<Rightarrow> nat \<Rightarrow> response run" where
  "fetchWithRetry E req userSignal now maxRetries =
     fetchWithRetry_loop E req userSignal maxRetries 0 now None"

definition handleResponse :: "string \<Rightarrow> response \<Rightarrow> js_error + json option" where
  \<comment> \<open>\<open>nullMsg\<close> is the message of the TypeError that \<^verbatim>\<open>errorData.detail\<close> throws when
      the body of a failed call parses to null; a body that does not parse is replaced by
      the empty object\<close>
  "handleResponse nullMsg response =
     (if \<not> ok response then
        (case (case jsonBody response of Inr v \<Rightarrow> v | Inl m \<Rightarrow> Some (ErrorData None None)) of
           None \<Rightarrow> Inl (TypeError nullMsg)
         | Some errorData \<Rightarrow>
             Inl (ApiError
                    (case detail errorData of
                       Some d \<Rightarrow> if d \<noteq> [] then d else ''Request failed: '' @ statusText response
                     | None \<Rightarrow> ''Request failed: '' @ statusText response)
                    (status response)
                    (errors errorData)
                    (status response \<ge> 500 \<or> status response = 429)))
      else (case jsonBody response of
              Inr v \<Rightarrow> Inr v
            | Inl m \<Rightarrow> Inl (OtherError ''SyntaxError'' m)))"

definition handled :: "string \<Rightarrow> response run \<Rightarrow> json option run" where
  \<comment> \<open>\<^verbatim>\<open>return handleResponse(response)\<close> after \<^verbatim>\<open>await fetchWithRetry(...)\<close>: an error
      thrown by the dispatcher propagates\<close>
  "handled nullMsg r =
     \<lparr>final = (case final r of Inl e \<Rightarrow> Inl e | Inr response \<Rightarrow> handleResponse nullMsg response),
      finished = finished r, trace = trace r, sleeps = sleeps r\<rparr>"

definition analyzeRequest :: "string \<Rightarrow> string option \<Rightarrow> request_body" where
  "analyzeRequest transcript additionalContext =
     AnalyzeBody (trim transcript)
       (case additionalContext of
          None \<Rightarrow> None
        | Some c \<Rightarrow> if trim c = [] then None else Some (trim c))"

definition analyzeTranscript ::
  "env \<Rightarrow> string \<Rightarrow> string option \<Rightarrow> real option \<Rightarrow> real \<Rightarrow> json option run" where
  "analyzeTranscript E transcript additionalContext signal now =
     handled (nullAccessMessage E) (fetchWithRetry E (analyzeRequest transcript additionalContext) signal now
                MAX_RETRIES)"

definition refineRequest :: "json \<Rightarrow> string \<Rightarrow> SectionType \<Rightarrow> request_body" where
  "refineRequest originalResponse feedback sectionToEdit =
     RefineBody originalResponse (trim feedback) sectionToEdit"

definition refineWithFeedback ::
  "env \<Rightarrow> json \<Rightarrow> string \<Rightarrow> SectionType \<Rightarrow> real option \<Rightarrow> real \<Rightarrow> json option run" where
  "refineWithFeedback E originalResponse feedback sectionToEdit signal now =
     handled (nullAccessMessage E) (fetchWithRetry E (refineRequest originalResponse feedback sectionToEdit) signal
                now MAX_RETRIES)"

section \<open>Operation lifecycle (frontend/src/hooks/useAnalysis.ts)\<close>

text \<open>
  The state of the hook: the four React state cells, the two refs, and the
  AbortControllers created so far, each with the instant at which it was aborted
  (\<open>None\<close>: not aborted). A ref holds the index of its controller. The cell \<open>result\<close> is
  null (\<open>None\<close>) or holds what a call returned.
\<close>

record hook_state =
  result :: "json option"
  loading :: bool
  refining :: bool
  error :: "string option"
  analyzeAbortRef :: "nat option"
  refineAbortRef :: "nat option"
  controllers :: "real option list"

definition initialState :: hook_state where
  "initialState =
     \<lparr>result = None, loading = False, refining = False, error = None,
      analyzeAbortRef = None, refineAbortRef = None, controllers = []\<rparr>"

definition abortController :: "nat option \<Rightarrow> real \<Rightarrow> real option list \<Rightarrow> real option list" where
  \<comment> \<open>\<^verbatim>\<open>ref.current?.abort()\<close> at instant \<open>now\<close>; aborting twice changes nothing\<close>
  "abortController ref now cs =
     (case ref of
        None \<Rightarrow> cs
      | Some c \<Rightarrow> if c < length cs \<and> cs ! c = None then cs[c := Some now] else cs)"

definition signalOf :: "hook_state \<Rightarrow> nat \<Rightarrow> real option" where
  \<comment> \<open>the instant at which the signal of controller \<open>c\<close> fires\<close>
  "signalOf s c = (if c < length (controllers s) then controllers s ! c else None)"

definition cancelRequests :: "real \<Rightarrow> hook_state \<Rightarrow> hook_state" where
  "cancelRequests now s =
     s\<lparr>controllers :=
          abortController (refineAbortRef s) now
            (abortController (analyzeAbortRef s) now (controllers s)),
        analyzeAbortRef := None,
        refineAbortRef := None\<rparr>"

definition clearError :: "hook_state \<Rightarrow> hook_state" where
  "clearError s = s\<lparr>error := None\<rparr>"

text \<open>
  An async function runs without interruption from one \<^verbatim>\<open>await\<close> to the next; \<open>analyze\<close>
  and \<open>refine\<close> each have one \<^verbatim>\<open>await\<close>, so each is two steps on the state: the part
  before the call is awaited, and the part that runs when the call has settled.
\<close>

definition analyze_start :: "real \<Rightarrow> hook_state \<Rightarrow> hook_state \<times> nat" where
  \<comment> \<open>returns the new state and the controller whose signal is passed to analyzeTranscript\<close>
  "analyze_start now s =
     (s\<lparr>controllers := abortController (analyzeAbortRef s) now (controllers s) @ [None],
        analyzeAbortRef := Some (length (controllers s)),
        loading := True,
        error := None\<rparr>,
      length (controllers s))"

definition analyze_settle :: "js_error + json option \<Rightarrow> hook_state \<Rightarrow> hook_state \<times> bool" where
  \<comment> \<open>returns the new state and the value the promise of \<open>analyze\<close> resolves to\<close>
  "analyze_settle settled s =
     (case settled of
        Inr response \<Rightarrow> (s\<lparr>result := response, loading := False\<rparr>, True)
      | Inl err \<Rightarrow>
          if isAbortError err then (s\<lparr>loading := False\<rparr>, False)
          else (s\<lparr>error := Some (formatErrorMessage err), loading := False\<rparr>, False))"

definition refine_start :: "real \<Rightarrow> hook_state \<Rightarrow> hook_state \<times> (json \<times> nat) option" where
  \<comment> \<open>\<open>None\<close>: \<open>refine\<close> returned false without calling; otherwise the document sent as
      original_response and the controller whose signal is passed\<close>
  "refine_start now s =
     (case result s of
        None \<Rightarrow>
          (s\<lparr>error := Some ''No result to refine. Please analyze a transcript first.''\<rparr>, None)
      | Some doc \<Rightarrow>
          (s\<lparr>controllers := abortController (refineAbortRef s) now (controllers s) @ [None],
             refineAbortRef := Some (length (controllers s)),
             refining := True,
             error := None\<rparr>,
           Some (doc, length (controllers s))))"

definition refine_settle :: "js_error + json option \<Rightarrow> hook_state \<Rightarrow> hook_state \<times> bool" where
  "refine_settle settled s =
     (case settled of
        Inr response \<Rightarrow> (s\<lparr>result := response, refining := False\<rparr>, True)
      | Inl err \<Rightarrow>
          if isAbortError err then (s\<lparr>refining := False\<rparr>, False)
          else (s\<lparr>error := Some (formatErrorMessage err), refining := False\<rparr>, False))"

text \<open>
  Two calls of \<open>analyze\<close>, the second made at \<open>t2\<close> while the first, made at \<open>t1\<close>, is
  still awaiting: both start steps run, each invocation then proceeds under the signal of
  its own controller, and the two settle steps run in the order in which the calls settle.
\<close>

definition analyze_twice ::
  "env \<Rightarrow> string \<Rightarrow> real \<Rightarrow> string \<Rightarrow> real \<Rightarrow> hook_state \<Rightarrow> hook_state" where
  "analyze_twice E transcript1 t1 transcript2 t2 s =
     (let (s1, c1) = analyze_start t1 s;
          (s2, c2) = analyze_start t2 s1;
          r1 = analyzeTranscript E transcript1 None (signalOf s2 c1) t1;
          r2 = analyzeTranscript E transcript2 None (signalOf s2 c2) t2
      in if finished r1 \<le> finished r2
         then fst (analyze_settle (final r2) (fst (analyze_settle (final r1) s2)))
         else fst (analyze_settle (final r1) (fst (analyze_settle (final r2) s2))))"

declare fetchWithRetry_loop.simps [simp del]
declare decimal.simps [simp del]

section \<open>Predicates used to state the properties\<close>

definition retryableFailure :: "js_error + response \<Rightarrow> bool" where
  \<comment> \<open>an attempt ended in a failure the dispatcher retries while budget is left: a 5xx or
      429 response, or a thrown error that isRetryableError accepts (a timeout, a network
      failure)\<close>
  "retryableFailure x =
     (case x of
        Inr r \<Rightarrow> status r \<ge> 500 \<or> status r = 429
      | Inl e \<Rightarrow> isRetryableError e)"

fun isRetryable :: "js_error \<Rightarrow> bool" where
  \<comment> \<open>the public field \<^verbatim>\<open>isRetryable\<close> of an ApiError\<close>
  "isRetryable (ApiError m st d r) = r"
| "isRetryable e = False"

section \<open>Sample inputs\<close>

definition sampleForm :: IncidentForm where
  "sampleForm =
     \<lparr>date_and_time_of_incident = ''2025-01-31T14:30:00'',
      service_user_name = ''Greg Jones'',
      location_of_incident = ''Kitchen'',
      type_of_incident = ''Fall'',
      description_of_incident = ''Greg fell in the kitchen while standing up.'',
      immediate_actions_taken = ''Helped back to chair'',
      was_first_aid_administered = False,
      were_emergency_services_contacted = False,
      who_was_notified = ''Supervisor'',
      witnesses = ''None'',
      agreed_next_steps = ''Moving and handling assessment'',
      risk_assessment_needed = True,
      if_yes_which_risk_assessment = ''Falls''\<rparr>"

definition sampleDocument :: "string list \<Rightarrow> AnalysisResponse" where
  \<comment> \<open>a document with the given recipients; all other fields are populated\<close>
  "sampleDocument recipients =
     \<lparr>incident_form = sampleForm,
      policy_analysis =
        \<lparr>relevant_policies = [''Falls policy''], policy_compliance = [],
         recommended_actions = [''GP referral''], concerns = []\<rparr>,
      draft_email =
        \<lparr>to = recipients, cc = None, subject = ''Incident report'',
         body = ''Greg Jones had a fall in the kitchen today.''\<rparr>,
      source_quotes = [(''type_of_incident'', ''I had a fall'')]\<rparr>"

definition response200 :: "AnalysisResponse \<Rightarrow> response" where
  "response200 d =
     \<lparr>status = 200, statusText = ''OK'', retryAfterHeader = None, jsonBody = Inr (Some (Doc d))\<rparr>"

definition response503 :: response where
  "response503 =
     \<lparr>status = 503, statusText = ''Service Unavailable'', retryAfterHeader = None,
      jsonBody = Inr (Some (ErrorData (Some ''Upstream unavailable'') None))\<rparr>"

definition response429 :: "string option \<Rightarrow> response" where
  "response429 hint =
     \<lparr>status = 429, statusText = ''Too Many Requests'', retryAfterHeader = hint,
      jsonBody = Inr (Some (ErrorData (Some ''Rate limit exceeded'') None))\<rparr>"

definition response422 :: response where
  "response422 =
     \<lparr>status = 422, statusText = ''Unprocessable Entity'', retryAfterHeader = None,
      jsonBody = Inr (Some (ErrorData (Some ''Validation failed'') (Some [''Transcript too short''])))\<rparr>"

definition bodyResponse :: "nat \<Rightarrow> string \<Rightarrow> string + json option \<Rightarrow> response" where
  \<comment> \<open>a response without Retry-After header, with the given status, status text and body\<close>
  "bodyResponse st text b =
     \<lparr>status = st, statusText = text, retryAfterHeader = None, jsonBody = b\<rparr>"

definition after :: "real \<Rightarrow> response \<Rightarrow> net_attempt" where
  \<comment> \<open>the network answers with this response after so many milliseconds; at a tie the
      attempt's own timer runs before the caller's abort, and an abort before the fetch
      settles\<close>
  "after ms r =
     \<lparr>latency = ms, outcome = Responds r, callerFirst = False, settleFirst = False\<rparr>"

definition failing :: "real \<Rightarrow> string \<Rightarrow> net_attempt" where
  \<comment> \<open>the network fails after so many milliseconds: fetch rejects with a TypeError of this
      message\<close>
  "failing ms m =
     \<lparr>latency = ms, outcome = Rejects m, callerFirst = False, settleFirst = False\<rparr>"

definition scriptedEnv :: "(request_body \<Rightarrow> net_attempt list) \<Rightarrow> env" where
  \<comment> \<open>the network follows a script per request and fails at once when the script has run
      out; no jitter; no string parses as a date\<close>
  "scriptedEnv script =
     \<lparr>net = (\<lambda>req k. if k < length (script req) then script req ! k
                      else failing 0 ''Failed to fetch''),
      mathRandom = (\<lambda>k. 0),
      dateParse = (\<lambda>s. None),
      abortMessage = ''The operation was aborted.'',
      nullAccessMessage = ''errorData is null''\<rparr>"

definition transcriptA :: string where
  "transcriptA = ''Greg called to say he had a fall in the kitchen this morning.''"

definition transcriptB :: string where
  "transcriptB = ''Greg called again in the evening and reported another fall.''"

definition slow503Env :: env where
  \<comment> \<open>every call is answered 503 after 15 seconds\<close>
  "slow503Env = scriptedEnv (\<lambda>req. [after 15000 response503, after 15000 response503,
                                     after 15000 response503])"

definition raceEnv :: env where
  \<comment> \<open>the first transcript is answered 503 and then 200; the second is answered 200 at once\<close>
  "raceEnv =
     scriptedEnv (\<lambda>req.
       if req = AnalyzeBody transcriptA None
       then [after 100 response503, after 100 (response200 (sampleDocument [''a@example.org'']))]
       else [after 100 (response200 (sampleDocument [''b@example.org'']))])"

definition rateLimitedEnv :: "string option \<Rightarrow> env" where
  \<comment> \<open>the first call is answered 429 with the given Retry-After header, the second 200; the
      date parser knows one HTTP date\<close>
  "rateLimitedEnv hint =
     (scriptedEnv (\<lambda>req. [after 200 (response429 hint),
                           after 200 (response200 (sampleDocument [''a@example.org'']))]))
       \<lparr>dateParse := (\<lambda>s. if s = ''Wed, 21 Oct 2015 07:28:00 GMT''
                           then Some 1445412480000 else None)\<rparr>"


definition invalidDocEnv :: env where
  \<comment> \<open>the upstream answers 200 with a document that has no recipient\<close>
  "invalidDocEnv = scriptedEnv (\<lambda>req. [after 100 (response200 (sampleDocument []))])"

definition loadFailedEnv :: env where
  \<comment> \<open>every call fails in the network, with the message WebKit gives such a failure\<close>
  "loadFailedEnv = scriptedEnv (\<lambda>req. [failing 50 ''Load failed'', failing 50 ''Load failed'',
                                        failing 50 ''Load failed''])"

definition nullBody422Env :: env where
  \<comment> \<open>the upstream answers 422 with the JSON body null\<close>
  "nullBody422Env =
     scriptedEnv (\<lambda>req. [after 300 (bodyResponse 422 ''Unprocessable Entity'' (Inr None))])"

definition nullBody503Env :: env where
  \<comment> \<open>the upstream answers every call 503 with the JSON body null\<close>
  "nullBody503Env =
     scriptedEnv (\<lambda>req. [after 100 (bodyResponse 503 ''Service Unavailable'' (Inr None)),
                          after 100 (bodyResponse 503 ''Service Unavailable'' (Inr None)),
                          after 100 (bodyResponse 503 ''Service Unavailable'' (Inr None))])"


section \<open>Backoff policy: the delay formula\<close>

lemmas consts_defs =
  MAX_RETRIES_def DEFAULT_TIMEOUT_MS_def INITIAL_RETRY_DELAY_MS_def MAX_RETRY_DELAY_MS_def

lemma capped_mono:
  "m \<le> n \<Longrightarrow> min (INITIAL_RETRY_DELAY_MS * 2 ^ m) MAX_RETRY_DELAY_MS
     \<le> min (INITIAL_RETRY_DELAY_MS * 2 ^ n) MAX_RETRY_DELAY_MS"
  by (simp add: min_le_iff_disj power_increasing)

text \<open>
  C2. For every attempt index \<open>n\<close> and every jitter \<open>j\<close> in \<open>[0, 1000)\<close> milliseconds (the
  value of \<^verbatim>\<open>Math.random() * 1000\<close>), the delay is \<open>min (1000 * 2^n) 10000 + j\<close>, with
  initial delay 1000 and maximum delay 10000; it stays below the maximum plus one second,
  it is at least the capped exponential, and the part before the jitter (the delay at
  jitter zero) does not decrease as \<open>n\<close> grows.
\<close>

theorem calculateRetryDelay_formula:
  "0 \<le> j \<and> j < 1000 \<longrightarrow>
     INITIAL_RETRY_DELAY_MS = 1000 \<and> MAX_RETRY_DELAY_MS = 10000 \<and>
     calculateRetryDelay n (j / 1000) = real (min (1000 * 2 ^ n) 10000) + j \<and>
     calculateRetryDelay n (j / 1000) < 10000 + 1000 \<and>
     calculateRetryDelay n (j / 1000) \<ge> real (min (1000 * 2 ^ n) 10000) \<and>
     calculateRetryDelay n 0 = real (min (1000 * 2 ^ n) 10000) \<and>
     (\<forall>m. m \<le> n \<longrightarrow> calculateRetryDelay m 0 \<le> calculateRetryDelay n 0)"
proof (intro impI conjI allI)
  assume j: "0 \<le> j \<and> j < 1000"
  show "INITIAL_RETRY_DELAY_MS = 1000" by (simp add: INITIAL_RETRY_DELAY_MS_def)
  show "MAX_RETRY_DELAY_MS = 10000" by (simp add: MAX_RETRY_DELAY_MS_def)
  show f: "calculateRetryDelay n (j / 1000) = real (min (1000 * 2 ^ n) 10000) + j"
    by (simp add: calculateRetryDelay_def consts_defs)
  have le: "real (min (1000 * 2 ^ n) 10000) \<le> 10000"
    by (metis min.cobounded2 of_nat_le_iff of_nat_numeral)
  show "calculateRetryDelay n (j / 1000) < 10000 + 1000"
    using j le unfolding f by linarith
  show "real (min (1000 * 2 ^ n) 10000) \<le> calculateRetryDelay n (j / 1000)"
    using j unfolding f by linarith
  show "calculateRetryDelay n 0 = real (min (1000 * 2 ^ n) 10000)"
    by (simp add: calculateRetryDelay_def consts_defs)
  fix m assume "m \<le> n"
  then show "calculateRetryDelay m 0 \<le> calculateRetryDelay n 0"
    using capped_mono [of m n] by (simp add: calculateRetryDelay_def Let_def)
qed

theorem calculateRetryDelay_formula_witness:
  "(0::real) \<le> 500 \<and> (500::real) < 1000 \<and> calculateRetryDelay 2 (500 / 1000) = 4500 \<and>
   calculateRetryDelay 2 (500 / 1000) < 11000 \<and>
   (1::nat) \<le> 5 \<and> calculateRetryDelay 1 0 \<le> calculateRetryDelay 5 0"
proof -
  have h: "(0::real) \<le> 500 \<and> (500::real) < 1000" by simp
  have a: "calculateRetryDelay 2 (500 / 1000) = 4500 \<and> calculateRetryDelay 2 (500 / 1000) < 11000"
    using calculateRetryDelay_formula [of 500 2] h by simp
  have "\<forall>m. m \<le> 5 \<longrightarrow> calculateRetryDelay m 0 \<le> calculateRetryDelay 5 0"
    using calculateRetryDelay_formula [of 500 5] h by blast
  then have b: "calculateRetryDelay 1 0 \<le> calculateRetryDelay 5 0" by simp
  show ?thesis using a b by simp
qed

section \<open>The dispatcher loop, one iteration at a time\<close>

lemma loop_retry_5xx:
  assumes "attempt < maxRetries"
    and "fetchWithTimeout (abortMessage E) (net E req attempt) sg now DEFAULT_TIMEOUT_MS = (Inr r, t)"
    and "status r \<ge> 500"
  shows "fetchWithRetry_loop E req sg maxRetries attempt now le =
         retried (Inr r) (calculateRetryDelay attempt (mathRandom E attempt))
           (fetchWithRetry_loop E req sg maxRetries (attempt + 1)
              (sleep t (calculateRetryDelay attempt (mathRandom E attempt))) le)"
  using assms by (subst fetchWithRetry_loop.simps) (simp add: Let_def)

lemma loop_retry_429:
  assumes "attempt < maxRetries"
    and "fetchWithTimeout (abortMessage E) (net E req attempt) sg now DEFAULT_TIMEOUT_MS = (Inr r, t)"
    and "status r = 429"
  shows "fetchWithRetry_loop E req sg maxRetries attempt now le =
         retried (Inr r)
           (parseRetryAfter (dateParse E) t (retryAfterHeader r)
              (calculateRetryDelay attempt (mathRandom E attempt)))
           (fetchWithRetry_loop E req sg maxRetries (attempt + 1)
              (sleep t (parseRetryAfter (dateParse E) t (retryAfterHeader r)
                 (calculateRetryDelay attempt (mathRandom E attempt)))) le)"
  using assms by (subst fetchWithRetry_loop.simps) (simp add: Let_def)

lemma loop_return:
  assumes "attempt \<le> maxRetries"
    and "fetchWithTimeout (abortMessage E) (net E req attempt) sg now DEFAULT_TIMEOUT_MS = (Inr r, t)"
    and "attempt = maxRetries \<or> (status r < 500 \<and> status r \<noteq> 429)"
  shows "fetchWithRetry_loop E req sg maxRetries attempt now le = stop (Inr r) t"
  using assms by (subst fetchWithRetry_loop.simps) auto


lemma loop_retry_error:
  assumes "attempt < maxRetries"
    and "fetchWithTimeout (abortMessage E) (net E req attempt) sg now DEFAULT_TIMEOUT_MS = (Inl e, t)"
    and "\<not> isAbortError e" and "isRetryableError e"
  shows "fetchWithRetry_loop E req sg maxRetries attempt now le =
         retried (Inl e) (calculateRetryDelay attempt (mathRandom E attempt))
           (fetchWithRetry_loop E req sg maxRetries (attempt + 1)
              (sleep t (calculateRetryDelay attempt (mathRandom E attempt))) (Some e))"
  using assms by (subst fetchWithRetry_loop.simps) (simp add: Let_def)

lemma loop_throw:
  assumes "attempt \<le> maxRetries"
    and "fetchWithTimeout (abortMessage E) (net E req attempt) sg now DEFAULT_TIMEOUT_MS = (Inl e, t)"
    and "attempt = maxRetries \<or> \<not> isRetryableError e"
  shows "fetchWithRetry_loop E req sg maxRetries attempt now le = stop (Inl e) t"
  using assms by (subst fetchWithRetry_loop.simps) auto

lemma abort_not_retryable: "isAbortError e \<Longrightarrow> \<not> isRetryableError e"
  by (cases e) (auto simp: isAbortError_def isRetryableError_def)

lemma trace_retried [simp]: "trace (retried x d r) = x # trace r"
  by (simp add: retried_def)

lemma sleeps_retried [simp]: "sleeps (retried x d r) = d # sleeps r"
  by (simp add: retried_def)

lemma final_retried [simp]: "final (retried x d r) = final r"
  by (simp add: retried_def)

lemma finished_retried [simp]: "finished (retried x d r) = finished r"
  by (simp add: retried_def)

lemma stop_sel [simp]:
  "trace (stop x t) = [x]" "sleeps (stop x t) = []" "final (stop x t) = x" "finished (stop x t) = t"
  by (simp_all add: stop_def)

lemma trace_nonempty:
  "attempt \<le> maxRetries \<Longrightarrow> trace (fetchWithRetry_loop E req sg maxRetries attempt now le) \<noteq> []"
  by (subst fetchWithRetry_loop.simps)
     (auto split: prod.splits sum.splits simp: Let_def)


lemma all_retryable_run:
  assumes "attempt \<le> maxRetries"
    and "\<forall>x \<in> set (trace (fetchWithRetry_loop E req sg maxRetries attempt now le)). retryableFailure x"
  shows "length (trace (fetchWithRetry_loop E req sg maxRetries attempt now le)) = Suc maxRetries - attempt
       \<and> length (sleeps (fetchWithRetry_loop E req sg maxRetries attempt now le)) = maxRetries - attempt
       \<and> final (fetchWithRetry_loop E req sg maxRetries attempt now le)
           = last (trace (fetchWithRetry_loop E req sg maxRetries attempt now le))"
  using assms
proof (induction "maxRetries - attempt" arbitrary: attempt now le)
  case 0
  then have eq: "attempt = maxRetries" by simp
  obtain res t where g: "fetchWithTimeout (abortMessage E) (net E req attempt) sg now DEFAULT_TIMEOUT_MS = (res, t)"
    by (cases "fetchWithTimeout (abortMessage E) (net E req attempt) sg now DEFAULT_TIMEOUT_MS")
  have "fetchWithRetry_loop E req sg maxRetries attempt now le = stop res t"
  proof (cases res)
    case (Inl e)
    then show ?thesis using loop_throw [of attempt maxRetries E req sg now e t le] g eq by simp
  next
    case (Inr r)
    then show ?thesis using loop_return [of attempt maxRetries E req sg now r t le] g eq by simp
  qed
  then show ?case using eq by simp
next
  case (Suc k)
  then have lt: "attempt < maxRetries" and k: "k = maxRetries - (attempt + 1)"
    and le': "attempt + 1 \<le> maxRetries" by simp_all
  obtain res t where g: "fetchWithTimeout (abortMessage E) (net E req attempt) sg now DEFAULT_TIMEOUT_MS = (res, t)"
    by (cases "fetchWithTimeout (abortMessage E) (net E req attempt) sg now DEFAULT_TIMEOUT_MS")
  let ?L = "fetchWithRetry_loop E req sg maxRetries attempt now le"
  have "\<exists>d le'. ?L = retried res d (fetchWithRetry_loop E req sg maxRetries (attempt + 1) (sleep t d) le')"
  proof (cases res)
    case (Inl e)
    show ?thesis
    proof (cases "isRetryableError e")
      case True
      then have "\<not> isAbortError e" using abort_not_retryable by blast
      then show ?thesis
        using loop_retry_error [of attempt maxRetries E req sg now e t le] g lt True Inl by blast
    next
      case False
      then have "?L = stop (Inl e) t"
        using loop_throw [of attempt maxRetries E req sg now e t le] g lt Inl by simp
      then have "\<not> (\<forall>x \<in> set (trace ?L). retryableFailure x)"
        using False by (simp add: retryableFailure_def)
      then show ?thesis using Suc.prems by blast
    qed
  next
    case (Inr r)
    consider "status r \<ge> 500" | "status r = 429" | "status r < 500 \<and> status r \<noteq> 429" by linarith
    then show ?thesis
    proof cases
      case 1
      then show ?thesis
        using loop_retry_5xx [of attempt maxRetries E req sg now r t le] g lt Inr by blast
    next
      case 2
      then show ?thesis
        using loop_retry_429 [of attempt maxRetries E req sg now r t le] g lt Inr by blast
    next
      case 3
      then have "?L = stop (Inr r) t"
        using loop_return [of attempt maxRetries E req sg now r t le] g lt Inr by simp
      then have "\<not> (\<forall>x \<in> set (trace ?L). retryableFailure x)"
        using 3 by (simp add: retryableFailure_def)
      then show ?thesis using Suc.prems by blast
    qed
  qed
  then obtain d le' where L: "?L = retried res d (fetchWithRetry_loop E req sg maxRetries (attempt + 1) (sleep t d) le')"
    by blast
  let ?R = "fetchWithRetry_loop E req sg maxRetries (attempt + 1) (sleep t d) le'"
  have all: "\<forall>x \<in> set (trace ?R). retryableFailure x"
    using Suc.prems(2) unfolding L by simp
  have ne: "trace ?R \<noteq> []" using trace_nonempty [OF le'] .
  have IH: "length (trace ?R) = Suc maxRetries - (attempt + 1)
       \<and> length (sleeps ?R) = maxRetries - (attempt + 1) \<and> final ?R = last (trace ?R)"
    using Suc.hyps(1) [OF k le' all] .
  show ?case unfolding L using IH ne lt by auto
qed

section \<open>Exhausting the retry budget\<close>

lemmas sample_defs =
  response200_def response503_def response429_def response422_def bodyResponse_def
  after_def failing_def scriptedEnv_def

lemma slow503_run:
  "fetchWithRetry slow503Env req None 0 MAX_RETRIES =
     \<lparr>final = Inr response503, finished = 48000,
      trace = [Inr response503, Inr response503, Inr response503],
      sleeps = [1000, 2000]\<rparr>"
proof -
  let ?E = "slow503Env"
  have g0: "fetchWithTimeout (abortMessage ?E) (net ?E req 0) None 0 DEFAULT_TIMEOUT_MS
              = (Inr response503, 15000)"
    by (simp add: fetchWithTimeout_def slow503Env_def sample_defs consts_defs userAborted_def)
  have g1: "fetchWithTimeout (abortMessage ?E) (net ?E req (Suc 0)) None 16000 DEFAULT_TIMEOUT_MS
              = (Inr response503, 31000)"
    by (simp add: fetchWithTimeout_def slow503Env_def sample_defs consts_defs userAborted_def)
  have g2: "fetchWithTimeout (abortMessage ?E) (net ?E req (Suc (Suc 0))) None 33000 DEFAULT_TIMEOUT_MS
              = (Inr response503, 48000)"
    by (simp add: fetchWithTimeout_def slow503Env_def sample_defs consts_defs userAborted_def)
  have st: "status response503 \<ge> 500" by (simp add: response503_def)
  have d0: "calculateRetryDelay 0 (mathRandom ?E 0) = 1000"
    by (simp add: calculateRetryDelay_def slow503Env_def sample_defs consts_defs)
  have d1: "calculateRetryDelay (Suc 0) (mathRandom ?E (Suc 0)) = 2000"
    by (simp add: calculateRetryDelay_def slow503Env_def sample_defs consts_defs)
  have s2: "fetchWithRetry_loop ?E req None 2 (Suc (Suc 0)) 33000 None = stop (Inr response503) 48000"
    using loop_return [of "Suc (Suc 0)" 2 ?E req None 33000 response503 48000 None] g2 by simp
  have s1: "fetchWithRetry_loop ?E req None 2 (Suc 0) 16000 None
              = retried (Inr response503) 2000 (stop (Inr response503) 48000)"
    using loop_retry_5xx [of "Suc 0" 2 ?E req None 16000 response503 31000 None] g1 st d1 s2
    by (simp add: sleep_def)
  have s0: "fetchWithRetry_loop ?E req None 2 0 0 None
              = retried (Inr response503) 1000
                  (retried (Inr response503) 2000 (stop (Inr response503) 48000))"
    using loop_retry_5xx [of 0 2 ?E req None 0 response503 15000 None] g0 st d0 s1
    by (simp add: sleep_def)
  show ?thesis
    by (simp add: fetchWithRetry_def MAX_RETRIES_def s0 retried_def stop_def)
qed

lemma retryable_run_exhausts_budget:
  assumes "R = handled nm (fetchWithRetry E req sg now MAX_RETRIES)"
    and "\<forall>x \<in> set (trace R). retryableFailure x"
  shows "length (trace R) = 3 \<and> length (sleeps R) = 2 \<and>
         final R = (case last (trace R) of Inl e \<Rightarrow> Inl e | Inr r \<Rightarrow> handleResponse nm r)"
proof -
  let ?L = "fetchWithRetry_loop E req sg MAX_RETRIES 0 now None"
  have tr: "trace R = trace ?L" and sl: "sleeps R = sleeps ?L"
    and fin: "final R = (case final ?L of Inl e \<Rightarrow> Inl e | Inr r \<Rightarrow> handleResponse nm r)"
    using assms(1) by (simp_all add: handled_def fetchWithRetry_def)
  have all: "\<forall>x \<in> set (trace ?L). retryableFailure x" using assms(2) tr by simp
  have run: "length (trace ?L) = Suc MAX_RETRIES - 0 \<and> length (sleeps ?L) = MAX_RETRIES - 0
             \<and> final ?L = last (trace ?L)"
    using all_retryable_run [of 0 MAX_RETRIES E req sg now None] all by simp
  then show ?thesis using tr sl fin by (simp add: MAX_RETRIES_def)
qed

lemma loadFailed_run:
  "fetchWithRetry loadFailedEnv req None 0 MAX_RETRIES = stop (Inl (TypeError ''Load failed'')) 50"
proof -
  have g: "fetchWithTimeout (abortMessage loadFailedEnv) (net loadFailedEnv req 0) None 0
             DEFAULT_TIMEOUT_MS = (Inl (TypeError ''Load failed''), 50)"
    by (simp add: fetchWithTimeout_def loadFailedEnv_def sample_defs consts_defs userAborted_def)
  have "\<not> isRetryableError (TypeError ''Load failed'')" by (simp add: isRetryableError_def)
  then show ?thesis
    unfolding fetchWithRetry_def
    using loop_throw [OF _ g, of MAX_RETRIES None] by simp
qed

text \<open>
  C1 fails on the code. A network failure reaches the dispatcher as the TypeError fetch
  rejects with, and isRetryableError takes it for a network error only when its message
  contains "fetch". WebKit's message for a failed load is "Load failed": with it the first
  attempt is the only one, no wait is made, and the caller gets that TypeError after 50
  milliseconds, where the claim has three attempts.
\<close>

theorem network_failure_not_retried:
  "isRetryableError (TypeError ''Failed to fetch'') \<and>
   \<not> isRetryableError (TypeError ''Load failed'') \<and>
   trace (analyzeTranscript loadFailedEnv transcriptA None None 0)
     = [Inl (TypeError ''Load failed'')] \<and>
   sleeps (analyzeTranscript loadFailedEnv transcriptA None None 0) = [] \<and>
   final (analyzeTranscript loadFailedEnv transcriptA None None 0)
     = Inl (TypeError ''Load failed'') \<and>
   finished (analyzeTranscript loadFailedEnv transcriptA None None 0) = 50"
  unfolding analyzeTranscript_def loadFailed_run handled_def
  by (simp add: isRetryableError_def)

section \<open>Retryability: three determinations\<close>

lemma retryability_agrees_unless_null:
  assumes "\<not> ok r" and "jsonBody r \<noteq> Inr None"
  shows "(\<exists>e. handleResponse nm r = Inl e \<and>
              isRetryable e = (status r \<ge> 500 \<or> status r = 429) \<and>
              isRetryableError e = (status r \<ge> 500 \<or> status r = 429)) \<and>
         (attempt < maxRetries \<and>
          fetchWithTimeout (abortMessage E) (net E req attempt) sg now DEFAULT_TIMEOUT_MS = (Inr r, t)
          \<longrightarrow> (sleeps (fetchWithRetry_loop E req sg maxRetries attempt now le) \<noteq> [])
                 = (status r \<ge> 500 \<or> status r = 429) \<and>
               (1 < length (trace (fetchWithRetry_loop E req sg maxRetries attempt now le)))
                 = (status r \<ge> 500 \<or> status r = 429))"
proof (intro conjI impI)
  show "\<exists>e. handleResponse nm r = Inl e \<and>
              isRetryable e = (status r \<ge> 500 \<or> status r = 429) \<and>
              isRetryableError e = (status r \<ge> 500 \<or> status r = 429)"
    using assms
    by (auto simp: handleResponse_def isRetryableError_def split: sum.splits option.splits)
next
  assume h: "attempt < maxRetries \<and>
    fetchWithTimeout (abortMessage E) (net E req attempt) sg now DEFAULT_TIMEOUT_MS = (Inr r, t)"
  let ?L = "fetchWithRetry_loop E req sg maxRetries attempt now le"
  consider "status r \<ge> 500" | "status r = 429" | "status r < 500 \<and> status r \<noteq> 429" by linarith
  then have "(sleeps ?L \<noteq> []) = (status r \<ge> 500 \<or> status r = 429) \<and>
             (1 < length (trace ?L)) = (status r \<ge> 500 \<or> status r = 429)"
  proof cases
    case 1
    have "trace (fetchWithRetry_loop E req sg maxRetries (attempt + 1)
            (sleep t (calculateRetryDelay attempt (mathRandom E attempt))) le) \<noteq> []"
      using trace_nonempty h by simp
    then show ?thesis
      using loop_retry_5xx [of attempt maxRetries E req sg now r t le] h 1 by simp
  next
    case 2
    have "trace (fetchWithRetry_loop E req sg maxRetries (attempt + 1)
            (sleep t (parseRetryAfter (dateParse E) t (retryAfterHeader r)
               (calculateRetryDelay attempt (mathRandom E attempt)))) le) \<noteq> []"
      using trace_nonempty h by simp
    then show ?thesis
      using loop_retry_429 [of attempt maxRetries E req sg now r t le] h 2 by simp
  next
    case 3
    then show ?thesis
      using loop_return [of attempt maxRetries E req sg now r t le] h by simp
  qed
  then show "(sleeps ?L \<noteq> []) = (status r \<ge> 500 \<or> status r = 429)"
    and "(1 < length (trace ?L)) = (status r \<ge> 500 \<or> status r = 429)"
    by simp_all
qed

lemma nullBody503_run:
  "fetchWithRetry nullBody503Env req None 0 MAX_RETRIES =
     \<lparr>final = Inr (bodyResponse 503 ''Service Unavailable'' (Inr None)), finished = 3300,
      trace = [Inr (bodyResponse 503 ''Service Unavailable'' (Inr None)),
               Inr (bodyResponse 503 ''Service Unavailable'' (Inr None)),
               Inr (bodyResponse 503 ''Service Unavailable'' (Inr None))],
      sleeps = [1000, 2000]\<rparr>"
proof -
  let ?E = "nullBody503Env"
  let ?r = "bodyResponse 503 ''Service Unavailable'' (Inr None)"
  have g0: "fetchWithTimeout (abortMessage ?E) (net ?E req 0) None 0 DEFAULT_TIMEOUT_MS
              = (Inr ?r, 100)"
    by (simp add: fetchWithTimeout_def nullBody503Env_def after_def scriptedEnv_def consts_defs
        userAborted_def)
  have g1: "fetchWithTimeout (abortMessage ?E) (net ?E req (Suc 0)) None 1100 DEFAULT_TIMEOUT_MS
              = (Inr ?r, 1200)"
    by (simp add: fetchWithTimeout_def nullBody503Env_def after_def scriptedEnv_def consts_defs
        userAborted_def)
  have g2: "fetchWithTimeout (abortMessage ?E) (net ?E req (Suc (Suc 0))) None 3200
              DEFAULT_TIMEOUT_MS = (Inr ?r, 3300)"
    by (simp add: fetchWithTimeout_def nullBody503Env_def after_def scriptedEnv_def consts_defs
        userAborted_def)
  have st: "status ?r \<ge> 500" by (simp add: bodyResponse_def)
  have d0: "calculateRetryDelay 0 (mathRandom ?E 0) = 1000"
    by (simp add: calculateRetryDelay_def nullBody503Env_def scriptedEnv_def consts_defs)
  have d1: "calculateRetryDelay (Suc 0) (mathRandom ?E (Suc 0)) = 2000"
    by (simp add: calculateRetryDelay_def nullBody503Env_def scriptedEnv_def consts_defs)
  have s2: "fetchWithRetry_loop ?E req None 2 (Suc (Suc 0)) 3200 None = stop (Inr ?r) 3300"
    using loop_return [OF _ g2, of 2 None] by simp
  have s1: "fetchWithRetry_loop ?E req None 2 (Suc 0) 1100 None
              = retried (Inr ?r) 2000 (stop (Inr ?r) 3300)"
    using loop_retry_5xx [OF _ g1 st, of 2 None] d1 s2 by (simp add: sleep_def)
  have s0: "fetchWithRetry_loop ?E req None 2 0 0 None
              = retried (Inr ?r) 1000 (retried (Inr ?r) 2000 (stop (Inr ?r) 3300))"
    using loop_retry_5xx [OF _ g0 st, of 2 None] d0 s1 by (simp add: sleep_def)
  show ?thesis
    by (simp add: fetchWithRetry_def MAX_RETRIES_def s0 retried_def stop_def)
qed

text \<open>
  C10 fails on the code for a response whose body is the JSON value null. The retry loop
  retries a 503 with that body like any 503. When it is the last attempt's response,
  handleResponse does not build an ApiError from it: reading \<^verbatim>\<open>errorData.detail\<close> throws
  a TypeError, which has no isRetryable flag and which isRetryableError rejects. The body
  that does not parse at all, replaced by the empty object, does give the ApiError with the
  flag set.
\<close>

theorem null_body_503_determinations_disagree:
  "\<not> ok (bodyResponse 503 ''Service Unavailable'' (Inr None)) \<and>
   sleeps (analyzeTranscript nullBody503Env transcriptA None None 0) = [1000, 2000] \<and>
   length (trace (analyzeTranscript nullBody503Env transcriptA None None 0)) = 3 \<and>
   handleResponse (nullAccessMessage nullBody503Env)
       (bodyResponse 503 ''Service Unavailable'' (Inr None))
     = Inl (TypeError ''errorData is null'') \<and>
   isRetryable (TypeError ''errorData is null'') = False \<and>
   isRetryableError (TypeError ''errorData is null'') = False \<and>
   final (analyzeTranscript nullBody503Env transcriptA None None 0)
     = Inl (TypeError ''errorData is null'') \<and>
   handleResponse (nullAccessMessage nullBody503Env)
       (bodyResponse 503 ''Service Unavailable'' (Inl ''Unexpected end of JSON input''))
     = Inl (ApiError ''Request failed: Service Unavailable'' 503 None True)"
  unfolding analyzeTranscript_def nullBody503_run handled_def
  by (simp add: handleResponse_def ok_def bodyResponse_def isRetryableError_def
      nullBody503Env_def scriptedEnv_def)

section \<open>Client failures are terminal\<close>

lemma client_failure_stops:
  assumes "400 \<le> status r" and "status r < 500" and "status r \<noteq> 429"
  shows "(attempt \<le> maxRetries \<and>
          fetchWithTimeout (abortMessage E) (net E req attempt) sg now DEFAULT_TIMEOUT_MS = (Inr r, t)
          \<longrightarrow> fetchWithRetry_loop E req sg maxRetries attempt now le = stop (Inr r) t) \<and>
         (fetchWithTimeout (abortMessage E) (net E req 0) sg now DEFAULT_TIMEOUT_MS = (Inr r, t)
          \<longrightarrow> trace (handled nm (fetchWithRetry E req sg now maxRetries)) = [Inr r] \<and>
               sleeps (handled nm (fetchWithRetry E req sg now maxRetries)) = [] \<and>
               finished (handled nm (fetchWithRetry E req sg now maxRetries)) = t \<and>
               (jsonBody r \<noteq> Inr None \<longrightarrow>
                  (\<exists>m ds. final (handled nm (fetchWithRetry E req sg now maxRetries))
                            = Inl (ApiError m (status r) ds False))) \<and>
               (jsonBody r = Inr None \<longrightarrow>
                  final (handled nm (fetchWithRetry E req sg now maxRetries))
                    = Inl (TypeError nm)) \<and>
               (\<forall>d ds. jsonBody r = Inr (Some (ErrorData (Some d) ds)) \<and> d \<noteq> []
                  \<longrightarrow> final (handled nm (fetchWithRetry E req sg now maxRetries))
                        = Inl (ApiError d (status r) ds False)))"
proof (intro conjI impI)
  assume "attempt \<le> maxRetries \<and>
    fetchWithTimeout (abortMessage E) (net E req attempt) sg now DEFAULT_TIMEOUT_MS = (Inr r, t)"
  then show "fetchWithRetry_loop E req sg maxRetries attempt now le = stop (Inr r) t"
    using loop_return [of attempt maxRetries E req sg now r t le] assms by simp
next
  assume g: "fetchWithTimeout (abortMessage E) (net E req 0) sg now DEFAULT_TIMEOUT_MS = (Inr r, t)"
  have run: "fetchWithRetry E req sg now maxRetries = stop (Inr r) t"
    unfolding fetchWithRetry_def
    using loop_return [of 0 maxRetries E req sg now r t None] g assms by simp
  have nok: "\<not> ok r" using assms by (simp add: ok_def)
  show "trace (handled nm (fetchWithRetry E req sg now maxRetries)) = [Inr r]"
    by (simp add: run handled_def)
  show "sleeps (handled nm (fetchWithRetry E req sg now maxRetries)) = []"
    by (simp add: run handled_def)
  show "finished (handled nm (fetchWithRetry E req sg now maxRetries)) = t"
    by (simp add: run handled_def)
  {
    assume "jsonBody r \<noteq> Inr None"
    then show "\<exists>m ds. final (handled nm (fetchWithRetry E req sg now maxRetries))
                 = Inl (ApiError m (status r) ds False)"
      using nok assms
      by (auto simp: run handled_def handleResponse_def split: sum.splits option.splits)
  }
  {
    assume "jsonBody r = Inr None"
    then show "final (handled nm (fetchWithRetry E req sg now maxRetries)) = Inl (TypeError nm)"
      using nok by (simp add: run handled_def handleResponse_def)
  }
  show "\<forall>d ds. jsonBody r = Inr (Some (ErrorData (Some d) ds)) \<and> d \<noteq> []
          \<longrightarrow> final (handled nm (fetchWithRetry E req sg now maxRetries))
                = Inl (ApiError d (status r) ds False)"
    using nok assms by (simp add: run handled_def handleResponse_def)
qed

lemma nullBody422_run:
  "fetchWithRetry nullBody422Env req None 0 MAX_RETRIES
     = stop (Inr (bodyResponse 422 ''Unprocessable Entity'' (Inr None))) 300"
proof -
  have g: "fetchWithTimeout (abortMessage nullBody422Env) (net nullBody422Env req 0) None 0
             DEFAULT_TIMEOUT_MS = (Inr (bodyResponse 422 ''Unprocessable Entity'' (Inr None)), 300)"
    by (simp add: fetchWithTimeout_def nullBody422Env_def after_def scriptedEnv_def consts_defs
        userAborted_def)
  show ?thesis
    unfolding fetchWithRetry_def
    using loop_return [OF _ g, of MAX_RETRIES None] by (simp add: bodyResponse_def)
qed

text \<open>
  C4 fails on the code for a response whose body is the JSON value null. A 422 stops the
  dispatcher after one attempt, as claimed, but what the caller then gets is the TypeError
  thrown by reading \<^verbatim>\<open>errorData.detail\<close>: it carries neither the status nor a message or
  details of the response. For a 422 whose body does not parse at all, handleResponse
  puts the empty object in its place and the caller gets the ApiError with the status and
  the fallback message.
\<close>

theorem null_body_422_loses_response:
  "trace (analyzeTranscript nullBody422Env transcriptA None None 0)
     = [Inr (bodyResponse 422 ''Unprocessable Entity'' (Inr None))] \<and>
   sleeps (analyzeTranscript nullBody422Env transcriptA None None 0) = [] \<and>
   final (analyzeTranscript nullBody422Env transcriptA None None 0)
     = Inl (TypeError ''errorData is null'') \<and>
   formatErrorMessage (TypeError ''errorData is null'') = ''errorData is null'' \<and>
   handleResponse (nullAccessMessage nullBody422Env)
       (bodyResponse 422 ''Unprocessable Entity'' (Inl ''Unexpected end of JSON input''))
     = Inl (ApiError ''Request failed: Unprocessable Entity'' 422 None False)"
  unfolding analyzeTranscript_def nullBody422_run handled_def
  by (simp add: handleResponse_def ok_def bodyResponse_def nullBody422Env_def scriptedEnv_def)

section \<open>Retry-After overrides the computed delay\<close>

lemmas parse_defs = parseInt_def isWhiteSpace_def isDigit_def digitValue_def

text \<open>
  C3. When an attempt with budget left is answered 429, the wait before the next attempt is
  the value of parseRetryAfter on the Retry-After header: for a header that parseInt reads
  as the integer \<open>s\<close>, \<open>min (s * 1000) 10000\<close> milliseconds, whatever the exponential
  delay is (and the next attempt starts that much later when \<open>s\<close> is not negative); for a
  header that parseInt does not read and the date parser reads as the instant \<open>ts\<close>,
  \<open>min (max 0 (ts - now)) 10000\<close>; for an absent, empty or unreadable header, the
  exponential delay with jitter.
\<close>

theorem retry_after_overrides_backoff:
  fixes E attempt r t
  defines "wait \<equiv> parseRetryAfter (dateParse E) t (retryAfterHeader r)
                     (calculateRetryDelay attempt (mathRandom E attempt))"
  assumes "attempt < maxRetries"
    and "fetchWithTimeout (abortMessage E) (net E req attempt) sg now DEFAULT_TIMEOUT_MS = (Inr r, t)"
    and "status r = 429"
  shows "fetchWithRetry_loop E req sg maxRetries attempt now le =
           retried (Inr r) wait
             (fetchWithRetry_loop E req sg maxRetries (Suc attempt) (sleep t wait) le) \<and>
         (\<forall>h s. retryAfterHeader r = Some h \<and> parseInt h = Some s
            \<longrightarrow> wait = min (real_of_int s * 1000) 10000 \<and>
                 (0 \<le> s \<longrightarrow> sleep t wait = t + min (real_of_int s * 1000) 10000)) \<and>
         (\<forall>h ts. retryAfterHeader r = Some h \<and> h \<noteq> [] \<and> parseInt h = None \<and>
                  dateParse E h = Some ts
            \<longrightarrow> wait = min (max 0 (ts - t)) 10000) \<and>
         (retryAfterHeader r = None \<or> retryAfterHeader r = Some [] \<or>
          (\<exists>h. retryAfterHeader r = Some h \<and> parseInt h = None \<and> dateParse E h = None)
            \<longrightarrow> wait = calculateRetryDelay attempt (mathRandom E attempt))"
proof (intro conjI allI impI)
  show "fetchWithRetry_loop E req sg maxRetries attempt now le =
           retried (Inr r) wait
             (fetchWithRetry_loop E req sg maxRetries (Suc attempt) (sleep t wait) le)"
    unfolding wait_def
    using loop_retry_429 [of attempt maxRetries E req sg now r t le] assms(2-4) by simp
next
  fix h s
  assume a: "retryAfterHeader r = Some h \<and> parseInt h = Some s"
  then have "h \<noteq> []" by (auto simp: parseInt_def)
  then show w: "wait = min (real_of_int s * 1000) 10000"
    using a by (simp add: wait_def parseRetryAfter_def MAX_RETRY_DELAY_MS_def)
  assume "0 \<le> s"
  then have "0 \<le> min (real_of_int s * 1000) 10000" by simp
  then show "sleep t wait = t + min (real_of_int s * 1000) 10000"
    unfolding w by (simp add: sleep_def)
next
  fix h ts
  assume "retryAfterHeader r = Some h \<and> h \<noteq> [] \<and> parseInt h = None \<and> dateParse E h = Some ts"
  then show "wait = min (max 0 (ts - t)) 10000"
    by (simp add: wait_def parseRetryAfter_def MAX_RETRY_DELAY_MS_def Let_def)
next
  assume "retryAfterHeader r = None \<or> retryAfterHeader r = Some [] \<or>
          (\<exists>h. retryAfterHeader r = Some h \<and> parseInt h = None \<and> dateParse E h = None)"
  then show "wait = calculateRetryDelay attempt (mathRandom E attempt)"
    by (auto simp: wait_def parseRetryAfter_def)
qed

theorem retry_after_overrides_backoff_witness:
  "(0::nat) < 2 \<and>
   fetchWithTimeout (abortMessage (rateLimitedEnv (Some ''5'')))
     (net (rateLimitedEnv (Some ''5'')) (analyzeRequest transcriptA None) 0) None 1445412470000
     DEFAULT_TIMEOUT_MS = (Inr (response429 (Some ''5'')), 1445412470200) \<and>
   status (response429 (Some ''5'')) = 429 \<and>
   parseInt ''5'' = Some 5 \<and>
   calculateRetryDelay 0 (mathRandom (rateLimitedEnv (Some ''5'')) 0) = 1000 \<and>
   sleeps (fetchWithRetry_loop (rateLimitedEnv (Some ''5'')) (analyzeRequest transcriptA None) None
             2 0 1445412470000 None) ! 0 = 5000 \<and>
   fetchWithTimeout (abortMessage (rateLimitedEnv (Some ''Wed, 21 Oct 2015 07:28:00 GMT'')))
     (net (rateLimitedEnv (Some ''Wed, 21 Oct 2015 07:28:00 GMT'')) (analyzeRequest transcriptA None) 0)
     None 1445412470000 DEFAULT_TIMEOUT_MS
     = (Inr (response429 (Some ''Wed, 21 Oct 2015 07:28:00 GMT'')), 1445412470200) \<and>
   parseInt ''Wed, 21 Oct 2015 07:28:00 GMT'' = None \<and>
   sleeps (fetchWithRetry_loop (rateLimitedEnv (Some ''Wed, 21 Oct 2015 07:28:00 GMT''))
             (analyzeRequest transcriptA None) None 2 0 1445412470000 None) ! 0 = 9800"
proof -
  let ?E = "rateLimitedEnv (Some ''5'')"
  let ?req = "analyzeRequest transcriptA None"
  let ?r = "response429 (Some ''5'')"
  have h1: "(0::nat) < 2" by simp
  have h2: "fetchWithTimeout (abortMessage ?E) (net ?E ?req 0) None 1445412470000
              DEFAULT_TIMEOUT_MS = (Inr ?r, 1445412470200)"
    by (simp add: fetchWithTimeout_def rateLimitedEnv_def sample_defs consts_defs userAborted_def)
  have h3: "status ?r = 429" by (simp add: response429_def)
  have p: "parseInt ''5'' = Some 5" by (simp add: parse_defs)
  have hd: "retryAfterHeader ?r = Some ''5''" by (simp add: response429_def)
  have d: "calculateRetryDelay 0 (mathRandom ?E 0) = 1000"
    by (simp add: calculateRetryDelay_def rateLimitedEnv_def sample_defs consts_defs)
  note T = retry_after_overrides_backoff [OF h1 h2 h3, of None]
  have w: "parseRetryAfter (dateParse ?E) 1445412470200 (retryAfterHeader ?r)
             (calculateRetryDelay 0 (mathRandom ?E 0)) = 5000"
    using T hd p by simp
  have seconds: "sleeps (fetchWithRetry_loop ?E ?req None 2 0 1445412470000 None) ! 0 = 5000"
    using T w by simp
  let ?D = "''Wed, 21 Oct 2015 07:28:00 GMT''"
  let ?E' = "rateLimitedEnv (Some ?D)"
  let ?r' = "response429 (Some ?D)"
  have h2': "fetchWithTimeout (abortMessage ?E') (net ?E' ?req 0) None 1445412470000
              DEFAULT_TIMEOUT_MS = (Inr ?r', 1445412470200)"
    by (simp add: fetchWithTimeout_def rateLimitedEnv_def sample_defs consts_defs userAborted_def)
  have h3': "status ?r' = 429" by (simp add: response429_def)
  have p': "parseInt ?D = None" by (simp add: parse_defs)
  have hd': "retryAfterHeader ?r' = Some ?D \<and> ?D \<noteq> []" by (simp add: response429_def)
  have dp: "dateParse ?E' ?D = Some 1445412480000"
    by (simp add: rateLimitedEnv_def)
  note T' = retry_after_overrides_backoff [OF h1 h2' h3', of None]
  have w': "parseRetryAfter (dateParse ?E') 1445412470200 (retryAfterHeader ?r')
             (calculateRetryDelay 0 (mathRandom ?E' 0)) = min (max 0 (1445412480000 - 1445412470200)) 10000"
    using T' hd' p' dp by blast
  have date: "sleeps (fetchWithRetry_loop ?E' ?req None 2 0 1445412470000 None) ! 0 = 9800"
    using T' w' by simp
  show ?thesis using h2 h3 p d seconds h2' p' date by simp
qed

section \<open>Abandoned attempts: caller cancellation or timeout\<close>






lemma settle_abort:
  assumes "isAbortError e"
  shows "analyze_settle (Inl e) s = (s\<lparr>loading := False\<rparr>, False)"
    and "refine_settle (Inl e) s = (s\<lparr>refining := False\<rparr>, False)"
  using assms by (simp_all add: analyze_settle_def refine_settle_def)





section \<open>What a settled operation publishes\<close>

lemma refine_start_result: "result (fst (refine_start now s)) = result s"
  by (simp add: refine_start_def split: option.splits)

text \<open>
  C7. When the call of a \<open>refine\<close> settles with an error that is not an AbortError, the
  error's message is published and the published document stays the one that was there;
  starting the refine does not touch the document either, so the whole operation leaves the
  document it was given in place. When the call of a \<open>refine\<close> or of an \<open>analyze\<close> settles
  with an AbortError, neither the document nor the error message changes; only the
  in-progress flag is cleared. Over the whole of such an operation, from its start step on,
  the document is the one from before and no error message is set (the start step clears
  the error message).
\<close>

theorem failed_refine_keeps_document:
  "(\<not> isAbortError e \<longrightarrow>
      refine_settle (Inl e) s
        = (s\<lparr>error := Some (formatErrorMessage e), refining := False\<rparr>, False) \<and>
      result (fst (refine_settle (Inl e) s)) = result s \<and>
      error (fst (refine_settle (Inl e) s)) = Some (formatErrorMessage e)) \<and>
   (refine_start now s0 = (s1, Some (doc, c)) \<longrightarrow>
      result s0 = Some doc \<and> result (fst (refine_settle (Inl e) s1)) = Some doc) \<and>
   (isAbortError e \<longrightarrow>
      refine_settle (Inl e) s = (s\<lparr>refining := False\<rparr>, False) \<and>
      result (fst (refine_settle (Inl e) s)) = result s \<and>
      error (fst (refine_settle (Inl e) s)) = error s \<and>
      analyze_settle (Inl e) s = (s\<lparr>loading := False\<rparr>, False) \<and>
      result (fst (analyze_settle (Inl e) s)) = result s \<and>
      error (fst (analyze_settle (Inl e) s)) = error s \<and>
      result (fst (analyze_settle (Inl e) (fst (analyze_start now s0)))) = result s0 \<and>
      error (fst (analyze_settle (Inl e) (fst (analyze_start now s0)))) = None \<and>
      result (fst (refine_settle (Inl e) (fst (refine_start now s0)))) = result s0 \<and>
      (result s0 \<noteq> None \<longrightarrow>
         error (fst (refine_settle (Inl e) (fst (refine_start now s0)))) = None))"
proof (intro conjI impI)
  assume "\<not> isAbortError e"
  then show "refine_settle (Inl e) s
        = (s\<lparr>error := Some (formatErrorMessage e), refining := False\<rparr>, False)"
    and "result (fst (refine_settle (Inl e) s)) = result s"
    and "error (fst (refine_settle (Inl e) s)) = Some (formatErrorMessage e)"
    by (simp_all add: refine_settle_def)
next
  assume a: "refine_start now s0 = (s1, Some (doc, c))"
  then show r0: "result s0 = Some doc"
    by (auto simp: refine_start_def split: option.splits)
  have "result s1 = result s0" using refine_start_result [of now s0] a by simp
  then show "result (fst (refine_settle (Inl e) s1)) = Some doc"
    using r0 by (simp add: refine_settle_def)
next
  assume ab: "isAbortError e"
  then show "refine_settle (Inl e) s = (s\<lparr>refining := False\<rparr>, False)"
    and "result (fst (refine_settle (Inl e) s)) = result s"
    and "error (fst (refine_settle (Inl e) s)) = error s"
    and "analyze_settle (Inl e) s = (s\<lparr>loading := False\<rparr>, False)"
    and "result (fst (analyze_settle (Inl e) s)) = result s"
    and "error (fst (analyze_settle (Inl e) s)) = error s"
    and "result (fst (analyze_settle (Inl e) (fst (analyze_start now s0)))) = result s0"
    and "error (fst (analyze_settle (Inl e) (fst (analyze_start now s0)))) = None"
    by (simp_all add: settle_abort analyze_start_def)
  show "result (fst (refine_settle (Inl e) (fst (refine_start now s0)))) = result s0"
    using ab by (simp add: settle_abort refine_start_result)
  assume "result s0 \<noteq> None"
  then show "error (fst (refine_settle (Inl e) (fst (refine_start now s0)))) = None"
    using ab by (auto simp: settle_abort refine_start_def)
qed

theorem failed_refine_keeps_document_witness:
  "\<not> isAbortError (ApiError ''Validation failed'' 422 (Some [''Transcript too short'']) False) \<and>
   refine_start 0 (initialState\<lparr>result := Some (Doc (sampleDocument [''a@example.org'']))\<rparr>)
     = (initialState\<lparr>result := Some (Doc (sampleDocument [''a@example.org''])),
                      controllers := [None], refineAbortRef := Some 0, refining := True,
                      error := None\<rparr>,
        Some (Doc (sampleDocument [''a@example.org'']), 0)) \<and>
   final (refineWithFeedback (scriptedEnv (\<lambda>req. [after 300 response422]))
            (Doc (sampleDocument [''a@example.org''])) ''Please add the GP'' all_sections None 0)
     = Inl (ApiError ''Validation failed'' 422 (Some [''Transcript too short'']) False) \<and>
   result (fst (refine_settle
                  (Inl (ApiError ''Validation failed'' 422 (Some [''Transcript too short'']) False))
                  (fst (refine_start 0
                     (initialState\<lparr>result := Some (Doc (sampleDocument [''a@example.org'']))\<rparr>)))))
     = Some (Doc (sampleDocument [''a@example.org''])) \<and>
   error (fst (refine_settle
                  (Inl (ApiError ''Validation failed'' 422 (Some [''Transcript too short'']) False))
                  (fst (refine_start 0
                     (initialState\<lparr>result := Some (Doc (sampleDocument [''a@example.org'']))\<rparr>)))))
     = Some ''Validation failed: Transcript too short'' \<and>
   isAbortError (OtherError ''AbortError'' ''The operation was aborted.'') \<and>
   result (fst (refine_settle (Inl (OtherError ''AbortError'' ''The operation was aborted.''))
                  (fst (refine_start 0
                     (initialState\<lparr>result := Some (Doc (sampleDocument [''a@example.org'']))\<rparr>)))))
     = Some (Doc (sampleDocument [''a@example.org'']))"
proof -
  let ?e = "ApiError ''Validation failed'' 422 (Some [''Transcript too short'']) False"
  let ?a = "OtherError ''AbortError'' ''The operation was aborted.''"
  let ?doc = "Doc (sampleDocument [''a@example.org''])"
  let ?s0 = "initialState\<lparr>result := Some ?doc\<rparr>"
  let ?s1 = "initialState\<lparr>result := Some ?doc, controllers := [None], refineAbortRef := Some 0,
                           refining := True, error := None\<rparr>"
  let ?E = "scriptedEnv (\<lambda>req. [after 300 response422])"
  have h1: "\<not> isAbortError ?e" by (simp add: isAbortError_def)
  have h2: "refine_start 0 ?s0 = (?s1, Some (?doc, 0))"
    by (simp add: refine_start_def initialState_def abortController_def)
  have h3: "isAbortError ?a" by (simp add: isAbortError_def)
  have g: "fetchWithTimeout (abortMessage ?E) (net ?E (refineRequest ?doc ''Please add the GP'' all_sections) 0)
             None 0 DEFAULT_TIMEOUT_MS = (Inr response422, 300)"
    by (simp add: fetchWithTimeout_def sample_defs consts_defs userAborted_def)
  have run: "fetchWithRetry ?E (refineRequest ?doc ''Please add the GP'' all_sections) None 0 MAX_RETRIES
               = stop (Inr response422) 300"
    unfolding fetchWithRetry_def
    using loop_return [OF _ g, of MAX_RETRIES None] by (simp add: response422_def)
  have f: "final (refineWithFeedback ?E ?doc ''Please add the GP'' all_sections None 0) = Inl ?e"
    unfolding refineWithFeedback_def run handled_def
    by (simp add: handleResponse_def ok_def response422_def)
  note T1 = failed_refine_keeps_document [of ?e "fst (refine_start 0 ?s0)" 0 ?s0 ?s1 ?doc 0]
  note T2 = failed_refine_keeps_document [of ?a "fst (refine_start 0 ?s0)" 0 ?s0 ?s1 ?doc 0]
  have r1: "result (fst (refine_settle (Inl ?e) (fst (refine_start 0 ?s0)))) = Some ?doc"
    using T1 h1 h2 by simp
  have e1: "error (fst (refine_settle (Inl ?e) (fst (refine_start 0 ?s0))))
              = Some ''Validation failed: Transcript too short''"
    using T1 h1 by simp
  have r2: "result (fst (refine_settle (Inl ?a) (fst (refine_start 0 ?s0)))) = Some ?doc"
    using T2 h3 h2 by simp
  show ?thesis using h1 h2 h3 f r1 e1 r2 by simp
qed

section \<open>Documents cross the boundary unchecked\<close>

lemma handleResponse_ok: "ok r \<Longrightarrow> jsonBody r = Inr v \<Longrightarrow> handleResponse nm r = Inr v"
  by (simp add: handleResponse_def)

lemma invalidDoc_run:
  "fetchWithRetry invalidDocEnv (analyzeRequest transcriptA None) None 0 MAX_RETRIES
     = stop (Inr (response200 (sampleDocument []))) 100"
proof -
  have g: "fetchWithTimeout (abortMessage invalidDocEnv)
             (net invalidDocEnv (analyzeRequest transcriptA None) 0) None 0 DEFAULT_TIMEOUT_MS
           = (Inr (response200 (sampleDocument [])), 100)"
    by (simp add: fetchWithTimeout_def invalidDocEnv_def sample_defs consts_defs userAborted_def)
  show ?thesis
    unfolding fetchWithRetry_def
    using loop_return [OF _ g, of MAX_RETRIES None] by (simp add: response200_def)
qed

text \<open>
  C8, as stated, fails: the client checks nothing. A 200 response carrying a document with
  an empty recipient list, which the minimum-content constraints reject, is accepted by
  analyzeTranscript, published by \<open>analyze\<close>, and sent back as it is in the body of a
  refinement request.
\<close>

theorem invalid_document_accepted:
  "\<not> minContentValid (sampleDocument []) \<and>
   final (analyzeTranscript invalidDocEnv transcriptA None None 0)
     = Inr (Some (Doc (sampleDocument []))) \<and>
   result (fst (analyze_settle (final (analyzeTranscript invalidDocEnv transcriptA None None 0))
                  (fst (analyze_start 0 initialState))))
     = Some (Doc (sampleDocument [])) \<and>
   refineRequest (Doc (sampleDocument [])) ''Please add the GP'' all_sections
     = RefineBody (Doc (sampleDocument [])) ''Please add the GP'' all_sections"
proof -
  have v: "\<not> minContentValid (sampleDocument [])"
    by (simp add: minContentValid_def minContentDraftEmail_def sampleDocument_def)
  have f: "final (analyzeTranscript invalidDocEnv transcriptA None None 0)
             = Inr (Some (Doc (sampleDocument [])))"
    unfolding analyzeTranscript_def invalidDoc_run handled_def
    by (simp add: handleResponse_def ok_def response200_def)
  have p: "result (fst (analyze_settle (Inr (Some (Doc (sampleDocument []))))
                          (fst (analyze_start 0 initialState))))
             = Some (Doc (sampleDocument []))"
    by (simp add: analyze_settle_def)
  have q: "refineRequest (Doc (sampleDocument [])) ''Please add the GP'' all_sections
             = RefineBody (Doc (sampleDocument [])) ''Please add the GP'' all_sections"
    by (simp add: refineRequest_def trim_def isWhiteSpace_def)
  show ?thesis using v f p q by simp
qed

text \<open>
  C8, amended. The client applies no minimum-content check at either crossing: the JSON body
  of any 2xx response is what handleResponse returns and what \<open>analyze\<close> publishes, and the
  published document is what \<open>refine\<close> sends, unchanged, as original_response. Both
  crossings therefore treat every document alike, whether or not it meets the constraints.
\<close>

theorem documents_cross_unchecked:
  "(ok r \<and> jsonBody r = Inr (Some j) \<longrightarrow> handleResponse nm r = Inr (Some j)) \<and>
   fst (analyze_settle (Inr (Some j)) s) = s\<lparr>result := Some j, loading := False\<rparr> \<and>
   (result s = Some j \<longrightarrow>
      snd (refine_start now s) = Some (j, length (controllers s))) \<and>
   refineRequest j feedback sectionToEdit = RefineBody j (trim feedback) sectionToEdit \<and>
   refineWithFeedback E j feedback sectionToEdit sg now
     = handled (nullAccessMessage E)
         (fetchWithRetry E (RefineBody j (trim feedback) sectionToEdit) sg now MAX_RETRIES)"
  by (simp add: handleResponse_ok analyze_settle_def refine_start_def refineRequest_def
      refineWithFeedback_def)

theorem documents_cross_unchecked_witness:
  "ok (response200 (sampleDocument [])) \<and>
   jsonBody (response200 (sampleDocument [])) = Inr (Some (Doc (sampleDocument []))) \<and>
   \<not> minContentValid (sampleDocument []) \<and>
   handleResponse ''errorData is null'' (response200 (sampleDocument []))
     = Inr (Some (Doc (sampleDocument []))) \<and>
   result (fst (analyze_settle (Inr (Some (Doc (sampleDocument [])))) initialState))
     = Some (Doc (sampleDocument [])) \<and>
   snd (refine_start 0 (fst (analyze_settle (Inr (Some (Doc (sampleDocument [])))) initialState)))
     = Some (Doc (sampleDocument []), 0) \<and>
   minContentValid (sampleDocument [''a@example.org'']) \<and>
   handleResponse ''errorData is null'' (response200 (sampleDocument [''a@example.org'']))
     = Inr (Some (Doc (sampleDocument [''a@example.org''])))"
proof -
  let ?bad = "sampleDocument []"
  let ?good = "sampleDocument [''a@example.org'']"
  let ?s = "fst (analyze_settle (Inr (Some (Doc ?bad))) initialState)"
  have h1: "ok (response200 ?bad) \<and> jsonBody (response200 ?bad) = Inr (Some (Doc ?bad))"
    by (simp add: ok_def response200_def)
  have h2: "ok (response200 ?good) \<and> jsonBody (response200 ?good) = Inr (Some (Doc ?good))"
    by (simp add: ok_def response200_def)
  have v1: "\<not> minContentValid ?bad"
    by (simp add: minContentValid_def minContentDraftEmail_def sampleDocument_def)
  have v2: "minContentValid ?good"
    by (simp add: minContentValid_def minContentDraftEmail_def minContentIncidentForm_def
        sampleDocument_def sampleForm_def)
  note T = documents_cross_unchecked
    [of "response200 ?bad" "Doc ?bad" "''errorData is null''" initialState 0]
  have a: "handleResponse ''errorData is null'' (response200 ?bad) = Inr (Some (Doc ?bad))"
    using T h1 by blast
  have b: "fst (analyze_settle (Inr (Some (Doc ?bad))) initialState)
             = initialState\<lparr>result := Some (Doc ?bad), loading := False\<rparr>"
    using T by blast
  have c: "snd (refine_start 0 ?s) = Some (Doc ?bad, 0)"
    using documents_cross_unchecked
      [of "response200 ?bad" "Doc ?bad" "''errorData is null''" ?s 0] b
    by (simp add: initialState_def)
  have d: "handleResponse ''errorData is null'' (response200 ?good) = Inr (Some (Doc ?good))"
    using documents_cross_unchecked
      [of "response200 ?good" "Doc ?good" "''errorData is null''"] h2 by blast
  show ?thesis using h1 v1 a b c v2 d by simp
qed

section \<open>A superseded invocation that publishes\<close>

lemma race_first_run:
  "fetchWithRetry raceEnv (analyzeRequest transcriptA None) (Some 500) 0 MAX_RETRIES
     = retried (Inr response503) 1000
         (stop (Inr (response200 (sampleDocument [''a@example.org'']))) 1200)"
proof -
  let ?E = "raceEnv"
  let ?req = "analyzeRequest transcriptA None"
  have rq: "?req = AnalyzeBody transcriptA None"
    by (simp add: analyzeRequest_def trim_def transcriptA_def isWhiteSpace_def)
  have g0: "fetchWithTimeout (abortMessage ?E) (net ?E ?req 0) (Some 500) 0 DEFAULT_TIMEOUT_MS
              = (Inr response503, 100)"
    unfolding rq
    by (simp add: fetchWithTimeout_def raceEnv_def scriptedEnv_def after_def consts_defs
        userAborted_def)
  have g1: "fetchWithTimeout (abortMessage ?E) (net ?E ?req (Suc 0)) (Some 500) 1100
              DEFAULT_TIMEOUT_MS
              = (Inr (response200 (sampleDocument [''a@example.org''])), 1200)"
    unfolding rq
    by (simp add: fetchWithTimeout_def raceEnv_def scriptedEnv_def after_def consts_defs
        userAborted_def)
  have d0: "calculateRetryDelay 0 (mathRandom ?E 0) = 1000"
    by (simp add: calculateRetryDelay_def raceEnv_def scriptedEnv_def consts_defs)
  have s1: "fetchWithRetry_loop ?E ?req (Some 500) 2 (Suc 0) 1100 None
              = stop (Inr (response200 (sampleDocument [''a@example.org'']))) 1200"
    using loop_return [OF _ g1, of 2 None] by (simp add: response200_def)
  have "fetchWithRetry_loop ?E ?req (Some 500) 2 0 0 None
          = retried (Inr response503) 1000
              (stop (Inr (response200 (sampleDocument [''a@example.org'']))) 1200)"
    using loop_retry_5xx [OF _ g0, of 2 None] d0 s1 by (simp add: sleep_def response503_def)
  then show ?thesis by (simp add: fetchWithRetry_def MAX_RETRIES_def)
qed

lemma race_second_run:
  "fetchWithRetry raceEnv (analyzeRequest transcriptB None) None 500 MAX_RETRIES
     = stop (Inr (response200 (sampleDocument [''b@example.org'']))) 600"
proof -
  let ?E = "raceEnv"
  let ?req = "analyzeRequest transcriptB None"
  have rq: "?req = AnalyzeBody transcriptB None"
    by (simp add: analyzeRequest_def trim_def transcriptB_def isWhiteSpace_def)
  have ne: "AnalyzeBody transcriptB None \<noteq> AnalyzeBody transcriptA None"
    by (simp add: transcriptA_def transcriptB_def)
  have g0: "fetchWithTimeout (abortMessage ?E) (net ?E ?req 0) None 500 DEFAULT_TIMEOUT_MS
              = (Inr (response200 (sampleDocument [''b@example.org''])), 600)"
    unfolding rq using ne
    by (simp add: fetchWithTimeout_def raceEnv_def scriptedEnv_def after_def consts_defs
        userAborted_def)
  show ?thesis
    unfolding fetchWithRetry_def
    using loop_return [OF _ g0, of MAX_RETRIES None] by (simp add: response200_def)
qed

text \<open>
  C6 fails on the code. A first \<open>analyze\<close> starts at 0 and is answered 503 at 100, so it
  waits until 1100. A second \<open>analyze\<close> starts at 500: it aborts the first one's controller
  and is answered at 600 with a document for b@example.org, which is published. The first
  invocation's second attempt starts at 1100 under a signal that has already fired, so
  nothing aborts its fetch; it is answered 200 at 1200 and the superseded invocation
  publishes its document for a@example.org over the newer one.
\<close>

theorem superseded_analyze_publishes:
  "analyze_start 500 (fst (analyze_start 0 initialState))
     = (\<lparr>result = None, loading = True, refining = False, error = None,
         analyzeAbortRef = Some 1, refineAbortRef = None, controllers = [Some 500, None]\<rparr>, 1) \<and>
   final (analyzeTranscript raceEnv transcriptA None (Some 500) 0)
     = Inr (Some (Doc (sampleDocument [''a@example.org'']))) \<and>
   finished (analyzeTranscript raceEnv transcriptA None (Some 500) 0) = 1200 \<and>
   final (analyzeTranscript raceEnv transcriptB None None 500)
     = Inr (Some (Doc (sampleDocument [''b@example.org'']))) \<and>
   finished (analyzeTranscript raceEnv transcriptB None None 500) = 600 \<and>
   result (analyze_twice raceEnv transcriptA 0 transcriptB 500 initialState)
     = Some (Doc (sampleDocument [''a@example.org''])) \<and>
   sampleDocument [''a@example.org''] \<noteq> sampleDocument [''b@example.org'']"
proof -
  let ?s2 = "\<lparr>result = None, loading = True, refining = False, error = None,
         analyzeAbortRef = Some 1, refineAbortRef = None, controllers = [Some 500, None]\<rparr>"
  have st: "analyze_start 0 initialState
              = (\<lparr>result = None, loading = True, refining = False, error = None,
                  analyzeAbortRef = Some 0, refineAbortRef = None, controllers = [None]\<rparr>, 0)"
    by (simp add: analyze_start_def initialState_def abortController_def)
  have st1: "analyze_start 500
               \<lparr>result = None, loading = True, refining = False, error = None,
                 analyzeAbortRef = Some 0, refineAbortRef = None, controllers = [None]\<rparr>
             = (?s2, 1)"
    by (simp add: analyze_start_def abortController_def)
  have st2: "analyze_start 500 (fst (analyze_start 0 initialState)) = (?s2, 1)"
    unfolding st using st1 by simp
  have r1: "analyzeTranscript raceEnv transcriptA None (Some 500) 0
              = \<lparr>final = Inr (Some (Doc (sampleDocument [''a@example.org'']))), finished = 1200,
                 trace = [Inr response503, Inr (response200 (sampleDocument [''a@example.org'']))],
                 sleeps = [1000]\<rparr>"
    unfolding analyzeTranscript_def race_first_run handled_def
    by (simp add: handleResponse_def ok_def response200_def retried_def stop_def)
  have r2: "analyzeTranscript raceEnv transcriptB None None 500
              = \<lparr>final = Inr (Some (Doc (sampleDocument [''b@example.org'']))), finished = 600,
                 trace = [Inr (response200 (sampleDocument [''b@example.org'']))],
                 sleeps = []\<rparr>"
    unfolding analyzeTranscript_def race_second_run handled_def
    by (simp add: handleResponse_def ok_def response200_def stop_def)
  have tw: "result (analyze_twice raceEnv transcriptA 0 transcriptB 500 initialState)
              = Some (Doc (sampleDocument [''a@example.org'']))"
    unfolding analyze_twice_def st
    by (simp add: st1 signalOf_def r1 r2 analyze_settle_def Let_def)
  have ne: "sampleDocument [''a@example.org''] \<noteq> sampleDocument [''b@example.org'']"
    by (simp add: sampleDocument_def)
  show ?thesis using st2 r1 r2 tw ne by simp
qed

section \<open>Elapsed time of an invocation\<close>

text \<open>
  C9 fails on the code: the 30 second timer is started anew for every attempt. Three 503
  answers that each take 15 seconds, with waits of 1 and 2 seconds between the attempts,
  bring the call to its end 48 seconds after it started.
\<close>

theorem three_slow_503_exceed_budget:
  "trace (analyzeTranscript slow503Env transcriptA None None 0)
     = [Inr response503, Inr response503, Inr response503] \<and>
   sleeps (analyzeTranscript slow503Env transcriptA None None 0) = [1000, 2000] \<and>
   final (analyzeTranscript slow503Env transcriptA None None 0)
     = Inl (ApiError ''Upstream unavailable'' 503 None True) \<and>
   finished (analyzeTranscript slow503Env transcriptA None None 0) = 48000 \<and>
   finished (analyzeTranscript slow503Env transcriptA None None 0) - 0 > real DEFAULT_TIMEOUT_MS"
  unfolding analyzeTranscript_def slow503_run handled_def
  by (simp add: handleResponse_def ok_def response503_def DEFAULT_TIMEOUT_MS_def)

end
